theory Spec2Isabelle
  imports Main "HOL-Library.Word"
begin

unbundle bit_operations_syntax

section \<open>The TypeScript library over the wasm core\<close>

text \<open>
  The TypeScript library wraps the classes that the wasm package \<^verbatim>\<open>./pkg/s68k\<close> exports
  (\<^verbatim>\<open>RawS68k\<close>, \<^verbatim>\<open>RawInterpreter\<close>, \<^verbatim>\<open>RawCpu\<close>, \<^verbatim>\<open>RawRegister\<close>, \<^verbatim>\<open>RawSemanticError\<close>).
  The package is not part of the sources, so every method of a raw class that the library
  calls is a parameter here: one record of methods per raw class, with the raw object as
  the first argument of each method. A JavaScript \<^verbatim>\<open>number\<close> that carries a size, an index
  or a flag is an \<open>int\<close>; the library only compares such numbers and passes them on.
\<close>

type_synonym number = int

subsection \<open>Outcomes of calls and the log of calls\<close>

text \<open>
  A call into the wasm core that changes the interpreter, and a call of a host function,
  either returns a value, throws (an \<^verbatim>\<open>async\<close> function then rejects its promise), or never
  comes back (a guest program that loops forever, a promise that never settles).
\<close>

datatype ('x, 'a) outcome = Returns 'a | Throws 'x | Diverges

subsection \<open>\<^verbatim>\<open>enum RegisterType\<close>\<close>

text \<open>
  A numeric TypeScript enum: \<^verbatim>\<open>Data\<close> is 0 and \<^verbatim>\<open>Address\<close> is 1, and at run time any number
  may stand where a \<^verbatim>\<open>RegisterType\<close> is expected.
\<close>

type_synonym RegisterType = number

definition RegisterType_Data :: RegisterType where
  "RegisterType_Data = 0"

definition RegisterType_Address :: RegisterType where
  "RegisterType_Address = 1"

subsection \<open>\<^verbatim>\<open>class Register\<close>\<close>

record ('rreg, 'v) RawRegister_methods =
  wasm_get_long :: "'rreg \<Rightarrow> 'v"
  wasm_get_word :: "'rreg \<Rightarrow> 'v"
  wasm_get_byte :: "'rreg \<Rightarrow> 'v"

datatype 'rreg Register = Register (register: 'rreg)

definition getLong :: "('rreg, 'v) RawRegister_methods \<Rightarrow> 'rreg Register \<Rightarrow> 'v" where
  "getLong raw this = wasm_get_long raw (register this)"

definition getWord :: "('rreg, 'v) RawRegister_methods \<Rightarrow> 'rreg Register \<Rightarrow> 'v" where
  "getWord raw this = wasm_get_word raw (register this)"

definition getByte :: "('rreg, 'v) RawRegister_methods \<Rightarrow> 'rreg Register \<Rightarrow> 'v" where
  "getByte raw this = wasm_get_byte raw (register this)"

subsection \<open>\<^verbatim>\<open>class Cpu\<close>\<close>

record ('rcpu, 'rreg, 'v) RawCpu_methods =
  wasm_get_a_regs_value :: "'rcpu \<Rightarrow> 'v list"
  wasm_get_d_regs_value :: "'rcpu \<Rightarrow> 'v list"
  wasm_get_d_reg :: "'rcpu \<Rightarrow> number \<Rightarrow> 'rreg"
  wasm_get_a_reg :: "'rcpu \<Rightarrow> number \<Rightarrow> 'rreg"

datatype 'rcpu Cpu = Cpu (cpu: 'rcpu)

definition getRegistersValues :: "('rcpu, 'rreg, 'v) RawCpu_methods \<Rightarrow> 'rcpu Cpu \<Rightarrow> 'v list" where
  "getRegistersValues raw this =
     (let aReg = wasm_get_a_regs_value raw (cpu this);
          dReg = wasm_get_d_regs_value raw (cpu this)
      in dReg @ aReg)"

definition getRegister ::
  "('rcpu, 'rreg, 'v) RawCpu_methods \<Rightarrow> 'rcpu Cpu \<Rightarrow> number \<Rightarrow> RegisterType \<Rightarrow> 'rreg Register" where
  "getRegister raw this reg rtype =
     (if rtype = RegisterType_Data then Register (wasm_get_d_reg raw (cpu this) reg)
      else Register (wasm_get_a_reg raw (cpu this) reg))"

definition Cpu_getRegisterValue ::
  "('rcpu, 'rreg, 'v) RawCpu_methods \<Rightarrow> ('rreg, 'v) RawRegister_methods \<Rightarrow>
   'rcpu Cpu \<Rightarrow> number \<Rightarrow> RegisterType \<Rightarrow> 'v" where
  "Cpu_getRegisterValue raw rawreg this reg rtype = getLong rawreg (getRegister raw this reg rtype)"

subsection \<open>\<^verbatim>\<open>class SemanticError\<close> and \<^verbatim>\<open>class CompiledProgram\<close>\<close>

record 'rerr RawSemanticError_methods =
  wasm_get_message :: "'rerr \<Rightarrow> string"
  wasm_get_line :: "'rerr \<Rightarrow> nat"

datatype 'rerr SemanticError = SemanticError (error: 'rerr)

definition getMessage :: "'rerr RawSemanticError_methods \<Rightarrow> 'rerr SemanticError \<Rightarrow> string" where
  "getMessage raw this = wasm_get_message raw (error this)"

definition getLineIndex :: "'rerr RawSemanticError_methods \<Rightarrow> 'rerr SemanticError \<Rightarrow> nat" where
  "getLineIndex raw this = wasm_get_line raw (error this)"

datatype 'prog CompiledProgram = CompiledProgram (program: 'prog)

definition getCompiledProgram :: "'prog CompiledProgram \<Rightarrow> 'prog" where
  "getCompiledProgram this = program this"

subsection \<open>\<^verbatim>\<open>class Interpreter\<close>\<close>

text \<open>
  Modelled from the spec: the members of the enum \<^verbatim>\<open>InterpreterStatus\<close>, which the wasm
  package declares. The library names \<^verbatim>\<open>InterpreterStatus.Interrupt\<close> (the spec's
  AwaitingInterrupt); the other three are the spec's Running, Terminated and
  TerminatedByFault. Likewise \<^verbatim>\<open>Size\<close>, of which the library names \<^verbatim>\<open>Size.Long\<close>: the
  spec's byte, word and long widths.
\<close>

datatype InterpreterStatus = Running | Interrupt | Terminated | TerminatedByFault

datatype Size = Byte | Word | Long

text \<open>
  The raw interpreter is a mutable object: a method that changes it takes the state \<open>'st\<close>
  of the object and gives the new state back. \<^verbatim>\<open>wasm_step\<close> returns the \<^verbatim>\<open>Step\<close> record, a
  pair of the instruction line and the status.
\<close>

type_synonym 'line Step = "'line \<times> InterpreterStatus"

record ('st, 'line, 'intr, 'res, 'x) RawInterpreter_methods =
  wasm_step :: "'st \<Rightarrow> ('x, 'line Step) outcome \<times> 'st"
  wasm_run :: "'st \<Rightarrow> ('x, InterpreterStatus) outcome \<times> 'st"
  wasm_answer_interrupt :: "'st \<Rightarrow> 'res \<Rightarrow> ('x, unit) outcome \<times> 'st"
  wasm_get_current_interrupt :: "'st \<Rightarrow> 'intr option"
  wasm_get_status :: "'st \<Rightarrow> InterpreterStatus"

record 'st RawInterpreter_flags =
  wasm_get_flags_as_array :: "'st \<Rightarrow> number list"
  wasm_get_flags_as_number :: "'st \<Rightarrow> number"

record ('st, 'reg) RawInterpreter_registers =
  wasm_get_register_value :: "'st \<Rightarrow> 'reg \<Rightarrow> Size \<Rightarrow> number"
  wasm_set_register_value :: "'st \<Rightarrow> 'reg \<Rightarrow> number \<Rightarrow> Size \<Rightarrow> 'st"

datatype 'st Interpreter = Interpreter (interpreter: 'st)

text \<open>
  What a method of the library did besides computing its result: the calls of the host's
  interrupt handler and of \<^verbatim>\<open>answerInterrupt\<close>, in order.
\<close>

datatype ('intr, 'res) interpreter_call = OnInterrupt "'intr option" | AnswerInterrupt 'res

text \<open>
  The host's \<^verbatim>\<open>InterruptHandler\<close>. It receives what \<^verbatim>\<open>getCurrentInterrupt()!\<close> evaluates to
  (the \<^verbatim>\<open>!\<close> is erased at run time, so \<^verbatim>\<open>null\<close> is passed on as it is), it may use the
  interpreter itself, and its awaited value is an \<^verbatim>\<open>InterruptResult\<close> (\<open>Some\<close>) or
  nothing (\<open>None\<close>: \<^verbatim>\<open>undefined\<close>, which \<^verbatim>\<open>if (result)\<close> takes as false; an
  \<^verbatim>\<open>InterruptResult\<close> is an object of the wasm package and so counts as true). A handler
  that throws, or whose promise is rejected, is \<open>Throws\<close>; one whose promise never settles
  is \<open>Diverges\<close>.
\<close>

type_synonym ('st, 'intr, 'res, 'x) InterruptHandler =
  "'intr option \<Rightarrow> 'st \<Rightarrow> ('x, 'res option) outcome \<times> 'st"

definition answerInterrupt ::
  "('st, 'line, 'intr, 'res, 'x) RawInterpreter_methods \<Rightarrow> 'st Interpreter \<Rightarrow> 'res \<Rightarrow>
   ('x, unit) outcome \<times> 'st Interpreter" where
  "answerInterrupt raw this interruptResult =
     (case wasm_answer_interrupt raw (interpreter this) interruptResult of
        (r, st) \<Rightarrow> (r, Interpreter st))"

definition step ::
  "('st, 'line, 'intr, 'res, 'x) RawInterpreter_methods \<Rightarrow> 'st Interpreter \<Rightarrow>
   ('x, 'line Step) outcome \<times> 'st Interpreter" where
  "step raw this = (case wasm_step raw (interpreter this) of (r, st) \<Rightarrow> (r, Interpreter st))"

definition getCurrentInterrupt ::
  "('st, 'line, 'intr, 'res, 'x) RawInterpreter_methods \<Rightarrow> 'st Interpreter \<Rightarrow> 'intr option" where
  "getCurrentInterrupt raw this = wasm_get_current_interrupt raw (interpreter this)"

definition stepWithInterruptHandler ::
  "('st, 'line, 'intr, 'res, 'x) RawInterpreter_methods \<Rightarrow> ('st, 'intr, 'res, 'x) InterruptHandler \<Rightarrow>
   'st Interpreter \<Rightarrow>
   ('x, 'line Step) outcome \<times> 'st Interpreter \<times> ('intr, 'res) interpreter_call list" where
  "stepWithInterruptHandler raw onInterrupt this =
     (case wasm_step raw (interpreter this) of
        (Throws x, st1) \<Rightarrow> (Throws x, Interpreter st1, [])
      | (Diverges, st1) \<Rightarrow> (Diverges, Interpreter st1, [])
      | (Returns stp, st1) \<Rightarrow>
          (let status = snd stp in
           if status = Interrupt then
             (let current = getCurrentInterrupt raw (Interpreter st1) in
              case onInterrupt current st1 of
                (Throws x, st2) \<Rightarrow> (Throws x, Interpreter st2, [OnInterrupt current])
              | (Diverges, st2) \<Rightarrow> (Diverges, Interpreter st2, [OnInterrupt current])
              | (Returns None, st2) \<Rightarrow> (Returns stp, Interpreter st2, [OnInterrupt current])
              | (Returns (Some result), st2) \<Rightarrow>
                  (case answerInterrupt raw (Interpreter st2) result of
                     (Throws x, this3) \<Rightarrow>
                       (Throws x, this3, [OnInterrupt current, AnswerInterrupt result])
                   | (Diverges, this3) \<Rightarrow>
                       (Diverges, this3, [OnInterrupt current, AnswerInterrupt result])
                   | (Returns u, this3) \<Rightarrow>
                       (Returns stp, this3, [OnInterrupt current, AnswerInterrupt result])))
           else (Returns stp, Interpreter st1, [])))"

definition getFlagsAsArray :: "'st RawInterpreter_flags \<Rightarrow> 'st Interpreter \<Rightarrow> bool list" where
  "getFlagsAsArray raw this = map (\<lambda>v. v = 1) (wasm_get_flags_as_array raw (interpreter this))"

definition getFlagsAsBitfield :: "'st RawInterpreter_flags \<Rightarrow> 'st Interpreter \<Rightarrow> number" where
  "getFlagsAsBitfield raw this = wasm_get_flags_as_number raw (interpreter this)"

definition getStatus ::
  "('st, 'line, 'intr, 'res, 'x) RawInterpreter_methods \<Rightarrow> 'st Interpreter \<Rightarrow> InterpreterStatus" where
  "getStatus raw this = wasm_get_status raw (interpreter this)"

text \<open>
  \<^verbatim>\<open>size = Size.Long\<close> is a default parameter: \<open>None\<close> is the omitted (or \<^verbatim>\<open>undefined\<close>)
  argument.
\<close>

definition getRegisterValue ::
  "('st, 'reg) RawInterpreter_registers \<Rightarrow> 'st Interpreter \<Rightarrow> 'reg \<Rightarrow> Size option \<Rightarrow> number" where
  "getRegisterValue raw this reg sz =
     wasm_get_register_value raw (interpreter this) reg (case sz of None \<Rightarrow> Long | Some s \<Rightarrow> s)"

definition setRegisterValue ::
  "('st, 'reg) RawInterpreter_registers \<Rightarrow> 'st Interpreter \<Rightarrow> 'reg \<Rightarrow> number \<Rightarrow> Size option \<Rightarrow>
   'st Interpreter" where
  "setRegisterValue raw this reg v sz =
     Interpreter (wasm_set_register_value raw (interpreter this) reg v
       (case sz of None \<Rightarrow> Long | Some s \<Rightarrow> s))"

definition run ::
  "('st, 'line, 'intr, 'res, 'x) RawInterpreter_methods \<Rightarrow> 'st Interpreter \<Rightarrow>
   ('x, InterpreterStatus) outcome \<times> 'st Interpreter" where
  "run raw this = (case wasm_run raw (interpreter this) of (r, st) \<Rightarrow> (r, Interpreter st))"

definition runWithInterruptHandler ::
  "('st, 'line, 'intr, 'res, 'x) RawInterpreter_methods \<Rightarrow> ('st, 'intr, 'res, 'x) InterruptHandler \<Rightarrow>
   'st Interpreter \<Rightarrow>
   ('x, InterpreterStatus) outcome \<times> 'st Interpreter \<times> ('intr, 'res) interpreter_call list" where
  "runWithInterruptHandler raw onInterrupt this =
     (case wasm_run raw (interpreter this) of
        (Throws x, st1) \<Rightarrow> (Throws x, Interpreter st1, [])
      | (Diverges, st1) \<Rightarrow> (Diverges, Interpreter st1, [])
      | (Returns status, st1) \<Rightarrow>
          (if status = Interrupt then
             (let current = getCurrentInterrupt raw (Interpreter st1) in
              case onInterrupt current st1 of
                (Throws x, st2) \<Rightarrow> (Throws x, Interpreter st2, [OnInterrupt current])
              | (Diverges, st2) \<Rightarrow> (Diverges, Interpreter st2, [OnInterrupt current])
              | (Returns None, st2) \<Rightarrow> (Returns status, Interpreter st2, [OnInterrupt current])
              | (Returns (Some result), st2) \<Rightarrow>
                  (case answerInterrupt raw (Interpreter st2) result of
                     (Throws x, this3) \<Rightarrow>
                       (Throws x, this3, [OnInterrupt current, AnswerInterrupt result])
                   | (Diverges, this3) \<Rightarrow>
                       (Diverges, this3, [OnInterrupt current, AnswerInterrupt result])
                   | (Returns u, this3) \<Rightarrow>
                       (Returns status, this3, [OnInterrupt current, AnswerInterrupt result])))
           else (Returns status, Interpreter st1, [])))"

subsection \<open>\<^verbatim>\<open>class S68k\<close>\<close>

text \<open>
  \<^verbatim>\<open>wasm_semantic_check\<close> returns a wrapper object around the core's errors, read with
  \<^verbatim>\<open>get_length\<close> and \<^verbatim>\<open>get_error_at_index\<close>. These methods and the constructor of
  \<^verbatim>\<open>RawS68k\<close> only read their arguments, and they have the types at which the library
  uses them: each returns a value. (The spec leaves the compiler's behaviour on a source
  with semantic errors unspecified; the library has no error path for it.)
\<close>

record ('raw, 'errs, 'rerr, 'prog, 'st) RawS68k_methods =
  RawS68k_new :: "string \<Rightarrow> 'raw"
  wasm_semantic_check :: "'raw \<Rightarrow> 'errs"
  get_length :: "'errs \<Rightarrow> nat"
  get_error_at_index :: "'errs \<Rightarrow> nat \<Rightarrow> 'rerr"
  wasm_compile :: "'raw \<Rightarrow> 'prog"
  wasm_create_interpreter :: "'raw \<Rightarrow> 'prog \<Rightarrow> number \<Rightarrow> 'st"

datatype 'raw S68k = S68k (s68k: 'raw)

text \<open>The calls of methods of the \<^verbatim>\<open>RawS68k\<close> object that a method of the library made, in order.\<close>

datatype 'prog s68k_call =
  Wasm_semantic_check | Wasm_compile | Wasm_create_interpreter 'prog number

datatype ('rerr, 'st) CompilationResult =
  Ok_false (errors: "'rerr SemanticError list") | Ok_true (compiled: "'st Interpreter")

definition S68k_new :: "('raw, 'errs, 'rerr, 'prog, 'st) RawS68k_methods \<Rightarrow> string \<Rightarrow> 'raw S68k" where
  "S68k_new raw code = S68k (RawS68k_new raw code)"

text \<open>The \<^verbatim>\<open>for\<close> loop of \<^verbatim>\<open>semanticCheck\<close>, from index \<open>i\<close> with the errors pushed so far.\<close>

function semanticCheck_loop ::
  "('raw, 'errs, 'rerr, 'prog, 'st) RawS68k_methods \<Rightarrow> 'errs \<Rightarrow> nat \<Rightarrow>
   'rerr SemanticError list \<Rightarrow> 'rerr SemanticError list" where
  "semanticCheck_loop raw errorWrapper i errs =
     (if i < get_length raw errorWrapper
      then semanticCheck_loop raw errorWrapper (i + 1)
             (errs @ [SemanticError (get_error_at_index raw errorWrapper i)])
      else errs)"
  by pat_completeness auto
termination
  by (relation "measure (\<lambda>(raw, errorWrapper, i, errs). get_length raw errorWrapper - i)") auto

declare semanticCheck_loop.simps [simp del]

definition semanticCheck ::
  "('raw, 'errs, 'rerr, 'prog, 'st) RawS68k_methods \<Rightarrow> 'raw S68k \<Rightarrow>
   'rerr SemanticError list \<times> 'prog s68k_call list" where
  "semanticCheck raw this =
     (let errorWrapper = wasm_semantic_check raw (s68k this)
      in (semanticCheck_loop raw errorWrapper 0 [], [Wasm_semantic_check]))"

definition compile ::
  "('raw, 'errs, 'rerr, 'prog, 'st) RawS68k_methods \<Rightarrow> 'raw S68k \<Rightarrow>
   'prog CompiledProgram \<times> 'prog s68k_call list" where
  "compile raw this = (CompiledProgram (wasm_compile raw (s68k this)), [Wasm_compile])"

text \<open>
  \<^verbatim>\<open>createInterpreter(memorySize: number = 0xFFFFFF, program?: CompiledProgram)\<close>: \<open>None\<close>
  is an omitted (or \<^verbatim>\<open>undefined\<close>) argument.
\<close>

definition createInterpreter ::
  "('raw, 'errs, 'rerr, 'prog, 'st) RawS68k_methods \<Rightarrow> 'raw S68k \<Rightarrow> number option \<Rightarrow>
   'prog CompiledProgram option \<Rightarrow> 'st Interpreter \<times> 'prog s68k_call list" where
  "createInterpreter raw this memorySize prog =
     (let msize = (case memorySize of None \<Rightarrow> 0xFFFFFF | Some m \<Rightarrow> m) in
      case prog of
        Some p \<Rightarrow>
          (Interpreter (wasm_create_interpreter raw (s68k this) (getCompiledProgram p) msize),
           [Wasm_create_interpreter (getCompiledProgram p) msize])
      | None \<Rightarrow>
          (case compile raw this of
             (p, calls) \<Rightarrow>
               (Interpreter (wasm_create_interpreter raw (s68k this) (getCompiledProgram p) msize),
                calls @ [Wasm_create_interpreter (getCompiledProgram p) msize])))"

definition S68k_compile ::
  "('raw, 'errs, 'rerr, 'prog, 'st) RawS68k_methods \<Rightarrow> string \<Rightarrow> number \<Rightarrow>
   ('rerr, 'st) CompilationResult \<times> 'prog s68k_call list" where
  "S68k_compile raw code memorySize =
     (let this = S68k_new raw code in
      case semanticCheck raw this of
        (errs, calls1) \<Rightarrow>
          if length errs > 0 then (Ok_false errs, calls1)
          else (case createInterpreter raw this (Some memorySize) None of
                  (interp, calls2) \<Rightarrow> (Ok_true interp, calls1 @ calls2)))"

definition S68k_semanticCheck ::
  "('raw, 'errs, 'rerr, 'prog, 'st) RawS68k_methods \<Rightarrow> string \<Rightarrow>
   'rerr SemanticError list \<times> 'prog s68k_call list" where
  "S68k_semanticCheck raw code = (let this = S68k_new raw code in semanticCheck raw this)"

subsection \<open>\<^verbatim>\<open>S68k.semanticCheck\<close> with the state of the wasm module\<close>

text \<open>
  Whether two invocations agree depends on what they share. The library shares nothing
  between them (the \<^verbatim>\<open>S68k\<close> object and the \<^verbatim>\<open>errors\<close> array are created inside each
  call), but both call into one wasm module. Here the constructor of \<^verbatim>\<open>RawS68k\<close> and
  \<^verbatim>\<open>wasm_semantic_check\<close> may read and change the state \<open>'w\<close> of that module, and the
  library's three functions pass it on in the order of their calls. The error wrapper that
  the check returns is read as before, with \<^verbatim>\<open>get_length\<close> and \<^verbatim>\<open>get_error_at_index\<close>.
\<close>

record ('w, 'raw, 'errs) RawS68k_module =
  RawS68k_new_in :: "string \<Rightarrow> 'w \<Rightarrow> 'raw \<times> 'w"
  wasm_semantic_check_in :: "'raw \<Rightarrow> 'w \<Rightarrow> 'errs \<times> 'w"

definition S68k_new_in :: "('w, 'raw, 'errs) RawS68k_module \<Rightarrow> string \<Rightarrow> 'w \<Rightarrow> 'raw S68k \<times> 'w" where
  "S68k_new_in m code w = (case RawS68k_new_in m code w of (r, w1) \<Rightarrow> (S68k r, w1))"

definition semanticCheck_in ::
  "('w, 'raw, 'errs) RawS68k_module \<Rightarrow> ('raw, 'errs, 'rerr, 'prog, 'st) RawS68k_methods \<Rightarrow>
   'raw S68k \<Rightarrow> 'w \<Rightarrow> 'rerr SemanticError list \<times> 'w" where
  "semanticCheck_in m raw this w =
     (case wasm_semantic_check_in m (s68k this) w of
        (errorWrapper, w1) \<Rightarrow> (semanticCheck_loop raw errorWrapper 0 [], w1))"

definition S68k_semanticCheck_in ::
  "('w, 'raw, 'errs) RawS68k_module \<Rightarrow> ('raw, 'errs, 'rerr, 'prog, 'st) RawS68k_methods \<Rightarrow>
   string \<Rightarrow> 'w \<Rightarrow> 'rerr SemanticError list \<times> 'w" where
  "S68k_semanticCheck_in m raw code w =
     (case S68k_new_in m code w of (this, w1) \<Rightarrow> semanticCheck_in m raw this w1)"

text \<open>
  Modelled from the spec: the purity of the core's semantic check (the Rust analyzer behind
  \<^verbatim>\<open>wasm_semantic_check\<close> is not among the sources). The spec calls it a pure function of
  the source, with no shared state and safely re-invocable: the errors that the core
  reports for a fresh \<^verbatim>\<open>RawS68k\<close> of a source, read in index order, are the same in every
  state of the module.
\<close>

definition reported_errors ::
  "('w, 'raw, 'errs) RawS68k_module \<Rightarrow> ('raw, 'errs, 'rerr, 'prog, 'st) RawS68k_methods \<Rightarrow>
   string \<Rightarrow> 'w \<Rightarrow> 'rerr list" where
  "reported_errors m raw code w =
     (case RawS68k_new_in m code w of
        (r, w1) \<Rightarrow>
          (case wasm_semantic_check_in m r w1 of
             (errorWrapper, w2) \<Rightarrow>
               map (get_error_at_index raw errorWrapper) [0..<get_length raw errorWrapper]))"

definition pure_semantic_check ::
  "('w, 'raw, 'errs) RawS68k_module \<Rightarrow> ('raw, 'errs, 'rerr, 'prog, 'st) RawS68k_methods \<Rightarrow> bool" where
  "pure_semantic_check m raw =
     (\<forall>code w w'. reported_errors m raw code w = reported_errors m raw code w')"

section \<open>The core, from the specification\<close>

subsection \<open>Stepping and running\<close>

text \<open>
  Modelled from the spec: the state machine of the core's interpreter (the Rust crate behind
  \<^verbatim>\<open>wasm_step\<close>, \<^verbatim>\<open>wasm_run\<close>, \<^verbatim>\<open>wasm_answer_interrupt\<close>, \<^verbatim>\<open>wasm_get_current_interrupt\<close> and
  \<^verbatim>\<open>wasm_get_status\<close> is not among the sources). The spec fixes the protocol and leaves the
  instruction set open, so the effect of one instruction (\<open>execute\<close>), the status, the
  line and the pending interrupt of a state, and the result-writing half of a trap
  (\<open>resume\<close>) are parameters.
  \<^item> \<^verbatim>\<open>step()\<close> executes exactly one instruction and returns the Step record; Terminated
    and TerminatedByFault are absorbing (a further step is a no-op returning the same
    status); a step while an interrupt is pending and unanswered is rejected explicitly.
  \<^item> \<^verbatim>\<open>run()\<close> repeatedly steps until the status is no longer Running and returns that
    status; it has no internal cancellation, so it diverges on an infinite guest loop.
  \<^item> \<^verbatim>\<open>answerInterrupt(result)\<close> is valid only while an interrupt is pending; with none
    pending it signals an explicit caller error.
  \<^item> \<^verbatim>\<open>getCurrentInterrupt()\<close> returns the pending interrupt, or none.
  For a step in a terminated state the spec's state machine prescribes the no-op, while its
  section on error handling asks for an explicit failure; either way the state stays as it
  is, and the definitions follow the state machine.
\<close>

record ('st, 'line, 'intr, 'res) spec_machine =
  status_of :: "'st \<Rightarrow> InterpreterStatus"
  line_of :: "'st \<Rightarrow> 'line"
  execute :: "'st \<Rightarrow> 'st"
  pending_of :: "'st \<Rightarrow> 'intr"
  resume :: "'st \<Rightarrow> 'res \<Rightarrow> 'st"

datatype spec_error = InterruptUnanswered | NoInterruptPending

definition spec_step ::
  "('st, 'line, 'intr, 'res) spec_machine \<Rightarrow> 'st \<Rightarrow> (spec_error, 'line Step) outcome \<times> 'st" where
  "spec_step m st =
     (case status_of m st of
        Running \<Rightarrow> (let st' = execute m st in (Returns (line_of m st, status_of m st'), st'))
      | Interrupt \<Rightarrow> (Throws InterruptUnanswered, st)
      | Terminated \<Rightarrow> (Returns (line_of m st, Terminated), st)
      | TerminatedByFault \<Rightarrow> (Returns (line_of m st, TerminatedByFault), st))"

text \<open>The state that a step leaves behind.\<close>

definition spec_next :: "('st, 'line, 'intr, 'res) spec_machine \<Rightarrow> 'st \<Rightarrow> 'st" where
  "spec_next m st = snd (spec_step m st)"

partial_function (option) spec_run_loop ::
  "('st, 'line, 'intr, 'res) spec_machine \<Rightarrow> 'st \<Rightarrow> 'st option" where
  "spec_run_loop m st =
     (if status_of m st = Running then spec_run_loop m (snd (spec_step m st)) else Some st)"

definition spec_run ::
  "('st, 'line, 'intr, 'res) spec_machine \<Rightarrow> 'st \<Rightarrow> (spec_error, InterpreterStatus) outcome \<times> 'st" where
  "spec_run m st =
     (if status_of m st = Interrupt then (Throws InterruptUnanswered, st)
      else case spec_run_loop m st of
             None \<Rightarrow> (Diverges, st)
           | Some st' \<Rightarrow> (Returns (status_of m st'), st'))"

definition spec_answer_interrupt ::
  "('st, 'line, 'intr, 'res) spec_machine \<Rightarrow> 'st \<Rightarrow> 'res \<Rightarrow> (spec_error, unit) outcome \<times> 'st" where
  "spec_answer_interrupt m st r =
     (if status_of m st = Interrupt then (Returns (), resume m st r)
      else (Throws NoInterruptPending, st))"

definition spec_get_current_interrupt ::
  "('st, 'line, 'intr, 'res) spec_machine \<Rightarrow> 'st \<Rightarrow> 'intr option" where
  "spec_get_current_interrupt m st =
     (if status_of m st = Interrupt then Some (pending_of m st) else None)"

definition spec_interpreter ::
  "('st, 'line, 'intr, 'res) spec_machine \<Rightarrow>
   ('st, 'line, 'intr, 'res, spec_error) RawInterpreter_methods" where
  "spec_interpreter m =
     \<lparr> wasm_step = spec_step m,
       wasm_run = spec_run m,
       wasm_answer_interrupt = spec_answer_interrupt m,
       wasm_get_current_interrupt = spec_get_current_interrupt m,
       wasm_get_status = status_of m \<rparr>"

text \<open>
  A host that calls \<^verbatim>\<open>step()\<close> \<open>n\<close> times in sequence; a call that throws ends the
  sequence, as the exception would.
\<close>

primrec step_times ::
  "('st, 'line, 'intr, 'res, 'x) RawInterpreter_methods \<Rightarrow> nat \<Rightarrow> 'st Interpreter \<Rightarrow>
   ('x, unit) outcome \<times> 'st Interpreter" where
  "step_times raw 0 this = (Returns (), this)"
| "step_times raw (Suc n) this =
     (case step raw this of
        (Returns stp, this') \<Rightarrow> step_times raw n this'
      | (Throws x, this') \<Rightarrow> (Throws x, this')
      | (Diverges, this') \<Rightarrow> (Diverges, this'))"

subsection \<open>Registers\<close>

text \<open>
  Modelled from the spec: the core's register file behind \<^verbatim>\<open>wasm_get_register_value\<close> and
  \<^verbatim>\<open>wasm_set_register_value\<close>. A register holds a 32-bit value; reads and writes are
  width-qualified (byte = low 8 bits, word = low 16 bits, long = all 32 bits); writing a
  narrower width leaves the untouched high-order bits unchanged; reading a narrower width
  returns only the low bits, unsigned. The number handed over by JavaScript is taken
  modulo \<open>2 ^ 32\<close>.
\<close>

definition spec_read_register :: "Size \<Rightarrow> 32 word \<Rightarrow> number" where
  "spec_read_register sz w =
     (case sz of
        Byte \<Rightarrow> uint (take_bit 8 w)
      | Word \<Rightarrow> uint (take_bit 16 w)
      | Long \<Rightarrow> uint w)"

definition spec_write_register :: "Size \<Rightarrow> 32 word \<Rightarrow> number \<Rightarrow> 32 word" where
  "spec_write_register sz old v =
     (case sz of
        Byte \<Rightarrow> (old AND NOT (mask 8)) OR (word_of_int v AND mask 8)
      | Word \<Rightarrow> (old AND NOT (mask 16)) OR (word_of_int v AND mask 16)
      | Long \<Rightarrow> word_of_int v)"

definition spec_registers :: "('reg \<Rightarrow> 32 word, 'reg) RawInterpreter_registers" where
  "spec_registers =
     \<lparr> wasm_get_register_value = (\<lambda>st r sz. spec_read_register sz (st r)),
       wasm_set_register_value = (\<lambda>st r v sz. st (r := spec_write_register sz (st r) v)) \<rparr>"

section \<open>Small instances of the core\<close>

text \<open>
  Concrete cores on which the theorems below are exercised. The checker of \<open>demo_s68k\<close>
  reports two errors for the source \<open>''bad''\<close> and none for any other; its compiler and
  its interpreter constructor keep what they are given.
\<close>

definition demo_s68k ::
  "(string, (string \<times> nat) list, string \<times> nat, string, string \<times> number) RawS68k_methods" where
  "demo_s68k =
     \<lparr> RawS68k_new = (\<lambda>code. code),
       wasm_semantic_check =
         (\<lambda>code. if code = ''bad'' then [(''unknown opcode'', 0), (''undefined label'', 2)] else []),
       get_length = length,
       get_error_at_index = (\<lambda>errs i. errs ! i),
       wasm_compile = (\<lambda>code. code),
       wasm_create_interpreter = (\<lambda>raw prog m. (prog, m)) \<rparr>"

definition demo_error :: "(string \<times> nat) RawSemanticError_methods" where
  "demo_error = \<lparr> wasm_get_message = fst, wasm_get_line = snd \<rparr>"


definition drifting_module :: "(nat, string, (string \<times> nat) list) RawS68k_module" where
  "drifting_module =
     \<lparr> RawS68k_new_in = (\<lambda>code w. (code, w + 1)),
       wasm_semantic_check_in =
         (\<lambda>r w. (if w < 2 then wasm_semantic_check demo_s68k r else [], w + 1)) \<rparr>"

text \<open>
  A countdown machine: the state is a counter and a data register; each instruction
  decrements the counter, the machine traps when the counter is 5 and halts when it is 0;
  answering the trap stores the answer in the register and moves on.
\<close>

definition countdown :: "(nat \<times> nat, nat, string, nat) spec_machine" where
  "countdown =
     \<lparr> status_of = (\<lambda>(n, d). if n = 0 then Terminated else if n = 5 then Interrupt else Running),
       line_of = fst,
       execute = (\<lambda>(n, d). (n - 1, d)),
       pending_of = (\<lambda>s. ''read number''),
       resume = (\<lambda>(n, d) r. (n - 1, r)) \<rparr>"

definition demo_flags :: "number list RawInterpreter_flags" where
  "demo_flags = \<lparr> wasm_get_flags_as_array = (\<lambda>st. st), wasm_get_flags_as_number = sum_list \<rparr>"

definition demo_cpu :: "(nat list \<times> nat list, string \<times> number, nat) RawCpu_methods" where
  "demo_cpu =
     \<lparr> wasm_get_a_regs_value = snd,
       wasm_get_d_regs_value = fst,
       wasm_get_d_reg = (\<lambda>c i. (''d'', i)),
       wasm_get_a_reg = (\<lambda>c i. (''a'', i)) \<rparr>"

section \<open>The library's \<^verbatim>\<open>S68k\<close> class\<close>

subsection \<open>The loop of \<^verbatim>\<open>semanticCheck\<close>\<close>

lemma semanticCheck_loop_eq:
  "semanticCheck_loop raw w i errs =
     errs @ map (\<lambda>k. SemanticError (get_error_at_index raw w k)) [i..<get_length raw w]"
proof (induction raw w i errs rule: semanticCheck_loop.induct)
  case (1 raw w i errs)
  show ?case
  proof (cases "i < get_length raw w")
    case True
    with 1 show ?thesis
      by (subst semanticCheck_loop.simps) (simp add: upt_conv_Cons)
  next
    case False
    then show ?thesis
      by (subst semanticCheck_loop.simps) simp
  qed
qed

lemma semanticCheck_eq:
  "semanticCheck raw this =
     (map (\<lambda>k. SemanticError (get_error_at_index raw (wasm_semantic_check raw (s68k this)) k))
        [0..<get_length raw (wasm_semantic_check raw (s68k this))],
      [Wasm_semantic_check])"
  by (simp add: semanticCheck_def semanticCheck_loop_eq Let_def)

lemma demo_s68k_simps:
  "RawS68k_new demo_s68k code = code"
  "wasm_semantic_check demo_s68k code =
     (if code = ''bad'' then [(''unknown opcode'', 0), (''undefined label'', 2)] else [])"
  "get_length demo_s68k es = length es"
  "get_error_at_index demo_s68k es i = es ! i"
  "wasm_compile demo_s68k code = code"
  "wasm_create_interpreter demo_s68k r prog m = (prog, m)"
  by (simp_all add: demo_s68k_def)

lemma demo_error_simps:
  "wasm_get_message demo_error e = fst e"
  "wasm_get_line demo_error e = snd e"
  by (simp_all add: demo_error_def)

lemma demo_semanticCheck_bad:
  "semanticCheck demo_s68k (S68k_new demo_s68k ''bad'') =
     ([SemanticError (''unknown opcode'', 0), SemanticError (''undefined label'', 2)],
      [Wasm_semantic_check])"
  by (simp add: semanticCheck_eq S68k_new_def demo_s68k_simps)

lemma demo_semanticCheck_good:
  "semanticCheck demo_s68k (S68k_new demo_s68k ''move.l #5,d0'') = ([], [Wasm_semantic_check])"
  by (simp add: semanticCheck_eq S68k_new_def demo_s68k_simps)

subsection \<open>\<^verbatim>\<open>S68k.compile\<close>\<close>

text \<open>
  C1. For every source text and memory size, the static \<^verbatim>\<open>S68k.compile(code, memorySize)\<close>
  returns \<^verbatim>\<open>{ok: false, errors}\<close> with the non-empty list of semantic errors, and constructs
  no interpreter (the only call on the raw object is the semantic check), exactly when the
  semantic check of that source yields at least one error, which is when the core reports
  a positive error count. When the list is empty it returns \<^verbatim>\<open>{ok: true, interpreter}\<close>,
  the interpreter being constructed from the compiled program with the given memory size.
\<close>

theorem S68k_compile_result:
  fixes raw :: "('raw, 'errs, 'rerr, 'prog, 'st) RawS68k_methods"
  assumes "this = S68k_new raw code"
    and "errs = fst (semanticCheck raw this)"
  shows "(errs \<noteq> []) = (0 < get_length raw (wasm_semantic_check raw (RawS68k_new raw code)))
    \<and> (errs \<noteq> [] \<longrightarrow>
          S68k_compile raw code memorySize = (Ok_false errs, [Wasm_semantic_check])
          \<and> (\<forall>p n. Wasm_create_interpreter p n \<notin> set (snd (S68k_compile raw code memorySize))))
    \<and> (errs = [] \<longrightarrow>
          S68k_compile raw code memorySize =
            (Ok_true (Interpreter
               (wasm_create_interpreter raw (s68k this) (wasm_compile raw (s68k this)) memorySize)),
             [Wasm_semantic_check, Wasm_compile,
              Wasm_create_interpreter (wasm_compile raw (s68k this)) memorySize]))"
proof -
  have count: "(errs \<noteq> []) = (0 < get_length raw (wasm_semantic_check raw (RawS68k_new raw code)))"
    using assms by (simp add: semanticCheck_eq S68k_new_def)
  have sc: "semanticCheck raw this = (errs, [Wasm_semantic_check])"
    using assms by (simp add: semanticCheck_eq)
  have failing: "S68k_compile raw code memorySize = (Ok_false errs, [Wasm_semantic_check])"
    if "errs \<noteq> []"
    using that sc assms(1) by (simp add: S68k_compile_def Let_def)
  have passing: "S68k_compile raw code memorySize =
            (Ok_true (Interpreter
               (wasm_create_interpreter raw (s68k this) (wasm_compile raw (s68k this)) memorySize)),
             [Wasm_semantic_check, Wasm_compile,
              Wasm_create_interpreter (wasm_compile raw (s68k this)) memorySize])"
    if "errs = []"
    using that sc assms(1)
    by (simp add: S68k_compile_def createInterpreter_def compile_def getCompiledProgram_def Let_def)
  from count failing passing show ?thesis by simp
qed

theorem S68k_compile_result_witness:
  "S68k_compile demo_s68k ''bad'' 1024 =
     (Ok_false [SemanticError (''unknown opcode'', 0), SemanticError (''undefined label'', 2)],
      [Wasm_semantic_check])
   \<and> S68k_compile demo_s68k ''move.l #5,d0'' 1024 =
     (Ok_true (Interpreter (''move.l #5,d0'', 1024)),
      [Wasm_semantic_check, Wasm_compile, Wasm_create_interpreter ''move.l #5,d0'' 1024])"
proof -
  have bad: "[SemanticError (''unknown opcode'', 0::nat), SemanticError (''undefined label'', 2)] =
      fst (semanticCheck demo_s68k (S68k_new demo_s68k ''bad''))"
    by (simp add: demo_semanticCheck_bad)
  have good: "([] :: (string \<times> nat) SemanticError list) =
      fst (semanticCheck demo_s68k (S68k_new demo_s68k ''move.l #5,d0''))"
    by (simp add: demo_semanticCheck_good)
  show ?thesis
    using S68k_compile_result [OF refl bad, of 1024] S68k_compile_result [OF refl good, of 1024]
    by (simp add: S68k_new_def demo_s68k_simps)
qed

subsection \<open>\<^verbatim>\<open>createInterpreter\<close>\<close>

text \<open>
  C2. For every \<^verbatim>\<open>S68k\<close> instance, \<^verbatim>\<open>createInterpreter\<close> called without a \<^verbatim>\<open>memorySize\<close>
  argument constructs the interpreter with a memory size of exactly 16,777,215 bytes
  (\<^verbatim>\<open>0xFFFFFF\<close>), whether a compiled program is passed or not.
\<close>

theorem createInterpreter_default_memory_size:
  "createInterpreter raw this None None =
     (Interpreter (wasm_create_interpreter raw (s68k this) (wasm_compile raw (s68k this)) 16777215),
      [Wasm_compile, Wasm_create_interpreter (wasm_compile raw (s68k this)) 16777215])
   \<and> createInterpreter raw this None (Some p) =
     (Interpreter (wasm_create_interpreter raw (s68k this) (getCompiledProgram p) 16777215),
      [Wasm_create_interpreter (getCompiledProgram p) 16777215])"
  by (simp add: createInterpreter_def compile_def getCompiledProgram_def Let_def)

text \<open>
  C7. For every \<^verbatim>\<open>S68k\<close> instance, \<^verbatim>\<open>createInterpreter\<close> called with an existing
  \<^verbatim>\<open>CompiledProgram\<close> constructs the interpreter from exactly that program and makes no call
  of \<^verbatim>\<open>wasm_compile\<close>, whereas without a program it compiles first. Hence a program
  compiled once serves to construct several interpreters, each by its own call of
  \<^verbatim>\<open>wasm_create_interpreter\<close>, with a single compilation in all.
\<close>

theorem createInterpreter_reuses_program:
  fixes raw :: "('raw, 'errs, 'rerr, 'prog, 'st) RawS68k_methods"
  assumes "msize = (case memorySize of None \<Rightarrow> 16777215 | Some n \<Rightarrow> n)"
    and "compile raw this = (p0, calls0)"
  shows "createInterpreter raw this memorySize (Some p) =
       (Interpreter (wasm_create_interpreter raw (s68k this) (getCompiledProgram p) msize),
        [Wasm_create_interpreter (getCompiledProgram p) msize])
    \<and> Wasm_compile \<notin> set (snd (createInterpreter raw this memorySize (Some p)))
    \<and> createInterpreter raw this memorySize None =
       (Interpreter (wasm_create_interpreter raw (s68k this) (wasm_compile raw (s68k this)) msize),
        [Wasm_compile, Wasm_create_interpreter (wasm_compile raw (s68k this)) msize])
    \<and> calls0 @ snd (createInterpreter raw this (Some m1) (Some p0))
             @ snd (createInterpreter raw this (Some m2) (Some p0)) =
       [Wasm_compile,
        Wasm_create_interpreter (wasm_compile raw (s68k this)) m1,
        Wasm_create_interpreter (wasm_compile raw (s68k this)) m2]
    \<and> fst (createInterpreter raw this (Some m1) (Some p0)) =
       Interpreter (wasm_create_interpreter raw (s68k this) (wasm_compile raw (s68k this)) m1)
    \<and> fst (createInterpreter raw this (Some m2) (Some p0)) =
       Interpreter (wasm_create_interpreter raw (s68k this) (wasm_compile raw (s68k this)) m2)"
  using assms
  by (auto simp: createInterpreter_def compile_def getCompiledProgram_def Let_def
      split: option.splits)

theorem createInterpreter_reuses_program_witness:
  "createInterpreter demo_s68k (S68k ''nop'') (Some 64) (Some (CompiledProgram ''compiled earlier'')) =
     (Interpreter (''compiled earlier'', 64), [Wasm_create_interpreter ''compiled earlier'' 64])
   \<and> createInterpreter demo_s68k (S68k ''nop'') (Some 64) None =
     (Interpreter (''nop'', 64), [Wasm_compile, Wasm_create_interpreter ''nop'' 64])
   \<and> snd (compile demo_s68k (S68k ''nop''))
       @ snd (createInterpreter demo_s68k (S68k ''nop'') (Some 8) (Some (CompiledProgram ''nop'')))
       @ snd (createInterpreter demo_s68k (S68k ''nop'') (Some 16) (Some (CompiledProgram ''nop''))) =
     [Wasm_compile, Wasm_create_interpreter ''nop'' 8, Wasm_create_interpreter ''nop'' 16]"
proof -
  have size: "(64::int) = (case Some 64 of None \<Rightarrow> 16777215 | Some n \<Rightarrow> n)"
    by simp
  have compiled: "compile demo_s68k (S68k ''nop'') = (CompiledProgram ''nop'', [Wasm_compile])"
    by (simp add: compile_def demo_s68k_simps)
  show ?thesis
    using createInterpreter_reuses_program
      [OF size compiled, of "CompiledProgram ''compiled earlier''" 8 16]
    by (simp add: compiled getCompiledProgram_def demo_s68k_simps)
qed

subsection \<open>\<^verbatim>\<open>semanticCheck\<close>\<close>

text \<open>
  C3. For every source text, \<^verbatim>\<open>semanticCheck\<close> returns a list whose length is the core's
  reported error count and whose \<open>i\<close>-th element wraps the core's error at index \<open>i\<close>, so the
  order of detection is kept; and for every such \<^verbatim>\<open>SemanticError\<close>, \<^verbatim>\<open>getMessage\<close> and
  \<^verbatim>\<open>getLineIndex\<close> return the core's message and line index unaltered.
\<close>

theorem semanticCheck_wraps_core_errors:
  fixes raw :: "('raw, 'errs, 'rerr, 'prog, 'st) RawS68k_methods"
  assumes "w = wasm_semantic_check raw (s68k this)"
    and "errs = fst (semanticCheck raw this)"
  shows "length errs = get_length raw w
    \<and> (\<forall>i < get_length raw w.
          errs ! i = SemanticError (get_error_at_index raw w i)
          \<and> getMessage rawe (errs ! i) = wasm_get_message rawe (get_error_at_index raw w i)
          \<and> getLineIndex rawe (errs ! i) = wasm_get_line rawe (get_error_at_index raw w i))"
  using assms by (simp add: semanticCheck_eq getMessage_def getLineIndex_def)

theorem semanticCheck_wraps_core_errors_witness:
  "length (fst (semanticCheck demo_s68k (S68k ''bad''))) = 2
   \<and> fst (semanticCheck demo_s68k (S68k ''bad'')) ! 1 = SemanticError (''undefined label'', 2)
   \<and> getMessage demo_error (fst (semanticCheck demo_s68k (S68k ''bad'')) ! 1) = ''undefined label''
   \<and> getLineIndex demo_error (fst (semanticCheck demo_s68k (S68k ''bad'')) ! 1) = 2"
proof -
  note wraps = semanticCheck_wraps_core_errors [OF refl refl, of demo_s68k "S68k ''bad''" demo_error]
  from wraps have len: "length (fst (semanticCheck demo_s68k (S68k ''bad''))) = 2"
    by (simp add: demo_s68k_simps)
  have "(1::nat) < get_length demo_s68k (wasm_semantic_check demo_s68k (s68k (S68k ''bad'')))"
    by (simp add: demo_s68k_simps)
  with wraps have
    "fst (semanticCheck demo_s68k (S68k ''bad'')) ! 1 =
       SemanticError (get_error_at_index demo_s68k
         (wasm_semantic_check demo_s68k (s68k (S68k ''bad''))) 1)
     \<and> getMessage demo_error (fst (semanticCheck demo_s68k (S68k ''bad'')) ! 1) =
       wasm_get_message demo_error (get_error_at_index demo_s68k
         (wasm_semantic_check demo_s68k (s68k (S68k ''bad''))) 1)
     \<and> getLineIndex demo_error (fst (semanticCheck demo_s68k (S68k ''bad'')) ! 1) =
       wasm_get_line demo_error (get_error_at_index demo_s68k
         (wasm_semantic_check demo_s68k (s68k (S68k ''bad''))) 1)"
    by blast
  with len show ?thesis
    by (simp add: demo_s68k_simps demo_error_simps getMessage_def getLineIndex_def)
qed

subsection \<open>Two invocations of \<^verbatim>\<open>S68k.semanticCheck\<close>\<close>



text \<open>Without state in the module, the functions above are those of the previous section.\<close>

lemma S68k_semanticCheck_in_stateless:
  "fst (S68k_semanticCheck_in
          \<lparr> RawS68k_new_in = (\<lambda>code w. (RawS68k_new raw code, w)),
            wasm_semantic_check_in = (\<lambda>r w. (wasm_semantic_check raw r, w)) \<rparr> raw code w) =
   fst (S68k_semanticCheck raw code)"
  by (simp add: S68k_semanticCheck_in_def S68k_new_in_def semanticCheck_in_def
      S68k_semanticCheck_def S68k_new_def semanticCheck_def Let_def)




text \<open>
  The premise on the core cannot be dropped: over a module whose check depends on its
  state, the same library returns different lists for the same source.
\<close>

lemma drifting_module_differs:
  "\<not> pure_semantic_check drifting_module demo_s68k
   \<and> fst (S68k_semanticCheck_in drifting_module demo_s68k ''bad'' 0) \<noteq>
     fst (S68k_semanticCheck_in drifting_module demo_s68k ''bad''
           (snd (S68k_semanticCheck_in drifting_module demo_s68k ''bad'' 0)))"
proof -
  have first: "S68k_semanticCheck_in drifting_module demo_s68k ''bad'' 0 =
      ([SemanticError (''unknown opcode'', 0), SemanticError (''undefined label'', 2)], 2)"
    by (simp add: S68k_semanticCheck_in_def S68k_new_in_def semanticCheck_in_def
        drifting_module_def semanticCheck_loop_eq demo_s68k_simps)
  have second: "S68k_semanticCheck_in drifting_module demo_s68k ''bad'' 2 = ([], 4)"
    by (simp add: S68k_semanticCheck_in_def S68k_new_in_def semanticCheck_in_def
        drifting_module_def semanticCheck_loop_eq demo_s68k_simps)
  have "reported_errors drifting_module demo_s68k ''bad'' 0 \<noteq>
      reported_errors drifting_module demo_s68k ''bad'' 2"
    by (simp add: reported_errors_def drifting_module_def demo_s68k_simps)
  then have "\<not> pure_semantic_check drifting_module demo_s68k"
    unfolding pure_semantic_check_def by blast
  then show ?thesis by (simp add: first second)
qed



section \<open>The library's \<^verbatim>\<open>Interpreter\<close> class\<close>

subsection \<open>Interrupt handlers\<close>

lemma stepWithInterruptHandler_protocol:
  fixes raw :: "('st, 'line, 'intr, 'res, 'x) RawInterpreter_methods"
  assumes "wasm_step raw (interpreter this) = (r, st1)"
    and "onInterrupt (getCurrentInterrupt raw (Interpreter st1)) st1 = (h, st2)"
    and "stepWithInterruptHandler raw onInterrupt this = (out, this', calls)"
  shows "(\<exists>i. OnInterrupt i \<in> set calls) = (\<exists>line. r = Returns (line, Interrupt))"
    and "\<forall>i. OnInterrupt i \<in> set calls \<longrightarrow> i = getCurrentInterrupt raw (Interpreter st1)"
    and "\<forall>res. (AnswerInterrupt res \<in> set calls) =
           ((\<exists>line. r = Returns (line, Interrupt)) \<and> h = Returns (Some res))"
    and "(\<exists>line. r = Returns (line, Interrupt)) \<and> h = Returns None \<longrightarrow> this' = Interpreter st2"
    and "\<forall>res. (\<exists>line. r = Returns (line, Interrupt)) \<and> h = Returns (Some res) \<longrightarrow>
           this' = snd (answerInterrupt raw (Interpreter st2) res)"
    and "\<forall>s. (out = Returns s) =
           (r = Returns s \<and>
            (snd s \<noteq> Interrupt \<or> h = Returns None \<or>
             (\<exists>res. h = Returns (Some res) \<and>
                    fst (answerInterrupt raw (Interpreter st2) res) = Returns ())))"
  using assms
  by (auto simp: stepWithInterruptHandler_def Let_def
      split: outcome.splits option.splits prod.splits if_splits)

lemma runWithInterruptHandler_protocol:
  fixes raw :: "('st, 'line, 'intr, 'res, 'x) RawInterpreter_methods"
  assumes "wasm_run raw (interpreter this) = (r, st1)"
    and "onInterrupt (getCurrentInterrupt raw (Interpreter st1)) st1 = (h, st2)"
    and "runWithInterruptHandler raw onInterrupt this = (out, this', calls)"
  shows "(\<exists>i. OnInterrupt i \<in> set calls) = (r = Returns Interrupt)"
    and "\<forall>i. OnInterrupt i \<in> set calls \<longrightarrow> i = getCurrentInterrupt raw (Interpreter st1)"
    and "\<forall>res. (AnswerInterrupt res \<in> set calls) = (r = Returns Interrupt \<and> h = Returns (Some res))"
    and "r = Returns Interrupt \<and> h = Returns None \<longrightarrow> this' = Interpreter st2"
    and "\<forall>res. r = Returns Interrupt \<and> h = Returns (Some res) \<longrightarrow>
           this' = snd (answerInterrupt raw (Interpreter st2) res)"
    and "\<forall>s. (out = Returns s) =
           (r = Returns s \<and>
            (s \<noteq> Interrupt \<or> h = Returns None \<or>
             (\<exists>res. h = Returns (Some res) \<and>
                    fst (answerInterrupt raw (Interpreter st2) res) = Returns ())))"
  using assms
  by (auto simp: runWithInterruptHandler_def Let_def
      split: outcome.splits option.splits prod.splits if_splits)

lemma countdown_step_6:
  "wasm_step (spec_interpreter countdown) (interpreter (Interpreter (6, 0))) =
     (Returns (6, Interrupt), (5, 0))"
  by (simp add: spec_interpreter_def spec_step_def countdown_def)

lemma countdown_run_6:
  "wasm_run (spec_interpreter countdown) (interpreter (Interpreter (6, 0))) =
     (Returns Interrupt, (5, 0))"
  by (simp add: spec_interpreter_def spec_run_def spec_run_loop.simps spec_step_def countdown_def)

lemma countdown_stepWith_answer:
  "stepWithInterruptHandler (spec_interpreter countdown) (\<lambda>i st. (Returns (Some 7), st))
     (Interpreter (6, 0)) =
   (Returns (6, Interrupt), Interpreter (4, 7),
    [OnInterrupt (Some ''read number''), AnswerInterrupt 7])"
  by (simp add: stepWithInterruptHandler_def getCurrentInterrupt_def answerInterrupt_def
      spec_interpreter_def spec_step_def spec_answer_interrupt_def spec_get_current_interrupt_def
      countdown_def)

lemma countdown_runWith_answer:
  "runWithInterruptHandler (spec_interpreter countdown) (\<lambda>i st. (Returns (Some 7), st))
     (Interpreter (6, 0)) =
   (Returns Interrupt, Interpreter (4, 7),
    [OnInterrupt (Some ''read number''), AnswerInterrupt 7])"
  by (simp add: runWithInterruptHandler_def getCurrentInterrupt_def answerInterrupt_def
      spec_interpreter_def spec_run_def spec_run_loop.simps spec_step_def spec_answer_interrupt_def
      spec_get_current_interrupt_def countdown_def)

text \<open>
  C5. For every interpreter and handler, \<^verbatim>\<open>stepWithInterruptHandler\<close> (and
  \<^verbatim>\<open>runWithInterruptHandler\<close>) invokes the handler if and only if the status produced by the
  underlying step (respectively run) is Interrupt, passing the current pending interrupt;
  \<^verbatim>\<open>answerInterrupt\<close> is called if and only if the handler returns a result, with that
  result, so a handler returning nothing leaves the interrupt unanswered (the interpreter
  stays as the handler left it); and the Step record (respectively status) produced before
  any answering is what is returned: the method returns a value exactly when the underlying
  call returned it and neither the handler nor the answering threw or failed to come back.
  Below, \<open>r\<close> and \<open>st1\<close> are the outcome of \<^verbatim>\<open>wasm_step\<close> and the state after it, \<open>h\<close> and
  \<open>st2\<close> those of the handler, and \<open>rr\<close>, \<open>rst1\<close>, \<open>rh\<close>, \<open>rst2\<close> the same for \<^verbatim>\<open>wasm_run\<close>.
\<close>

theorem interrupt_handler_protocol:
  fixes raw :: "('st, 'line, 'intr, 'res, 'x) RawInterpreter_methods"
  assumes "wasm_step raw (interpreter this) = (r, st1)"
    and "onInterrupt (getCurrentInterrupt raw (Interpreter st1)) st1 = (h, st2)"
    and "stepWithInterruptHandler raw onInterrupt this = (out, this', calls)"
    and "wasm_run raw (interpreter this) = (rr, rst1)"
    and "onInterrupt (getCurrentInterrupt raw (Interpreter rst1)) rst1 = (rh, rst2)"
    and "runWithInterruptHandler raw onInterrupt this = (rout, rthis', rcalls)"
  shows "((\<exists>i. OnInterrupt i \<in> set calls) = (\<exists>line. r = Returns (line, Interrupt)))
    \<and> (\<forall>i. OnInterrupt i \<in> set calls \<longrightarrow> i = getCurrentInterrupt raw (Interpreter st1))
    \<and> (\<forall>res. (AnswerInterrupt res \<in> set calls) =
           ((\<exists>line. r = Returns (line, Interrupt)) \<and> h = Returns (Some res)))
    \<and> ((\<exists>line. r = Returns (line, Interrupt)) \<and> h = Returns None \<longrightarrow> this' = Interpreter st2)
    \<and> (\<forall>res. (\<exists>line. r = Returns (line, Interrupt)) \<and> h = Returns (Some res) \<longrightarrow>
           this' = snd (answerInterrupt raw (Interpreter st2) res))
    \<and> (\<forall>s. (out = Returns s) =
           (r = Returns s \<and>
            (snd s \<noteq> Interrupt \<or> h = Returns None \<or>
             (\<exists>res. h = Returns (Some res) \<and>
                    fst (answerInterrupt raw (Interpreter st2) res) = Returns ()))))
    \<and> ((\<exists>i. OnInterrupt i \<in> set rcalls) = (rr = Returns Interrupt))
    \<and> (\<forall>i. OnInterrupt i \<in> set rcalls \<longrightarrow> i = getCurrentInterrupt raw (Interpreter rst1))
    \<and> (\<forall>res. (AnswerInterrupt res \<in> set rcalls) =
           (rr = Returns Interrupt \<and> rh = Returns (Some res)))
    \<and> (rr = Returns Interrupt \<and> rh = Returns None \<longrightarrow> rthis' = Interpreter rst2)
    \<and> (\<forall>res. rr = Returns Interrupt \<and> rh = Returns (Some res) \<longrightarrow>
           rthis' = snd (answerInterrupt raw (Interpreter rst2) res))
    \<and> (\<forall>s. (rout = Returns s) =
           (rr = Returns s \<and>
            (s \<noteq> Interrupt \<or> rh = Returns None \<or>
             (\<exists>res. rh = Returns (Some res) \<and>
                    fst (answerInterrupt raw (Interpreter rst2) res) = Returns ()))))"
  using stepWithInterruptHandler_protocol [OF assms(1-3)]
    runWithInterruptHandler_protocol [OF assms(4-6)]
  by (intro conjI)

theorem interrupt_handler_protocol_witness:
  "(\<exists>i. OnInterrupt i \<in> set [OnInterrupt (Some ''read number''), AnswerInterrupt (7::nat)])
   \<and> AnswerInterrupt (7::nat) \<in> set [OnInterrupt (Some ''read number''), AnswerInterrupt 7]
   \<and> stepWithInterruptHandler (spec_interpreter countdown) (\<lambda>i st. (Returns (Some 7), st))
        (Interpreter (6, 0)) =
      (Returns (6, Interrupt), Interpreter (4, 7),
       [OnInterrupt (Some ''read number''), AnswerInterrupt 7])
   \<and> runWithInterruptHandler (spec_interpreter countdown) (\<lambda>i st. (Returns (Some 7), st))
        (Interpreter (6, 0)) =
      (Returns Interrupt, Interpreter (4, 7),
       [OnInterrupt (Some ''read number''), AnswerInterrupt 7])"
proof -
  have handler: "(\<lambda>i st. (Returns (Some 7), st))
      (getCurrentInterrupt (spec_interpreter countdown) (Interpreter (5, 0))) (5, 0) =
      (Returns (Some (7::nat)), (5::nat, 0::nat))"
    by simp
  note protocol = interrupt_handler_protocol
    [OF countdown_step_6 handler countdown_stepWith_answer
        countdown_run_6 handler countdown_runWith_answer]
  from protocol have "\<exists>i. OnInterrupt i \<in> set [OnInterrupt (Some ''read number''), AnswerInterrupt (7::nat)]"
    by blast
  moreover from protocol
  have "AnswerInterrupt (7::nat) \<in> set [OnInterrupt (Some ''read number''), AnswerInterrupt 7]"
    by blast
  ultimately show ?thesis
    using countdown_stepWith_answer countdown_runWith_answer by simp
qed

subsection \<open>Flags\<close>

text \<open>
  C6. For every interpreter state, \<^verbatim>\<open>getFlagsAsArray\<close> returns a boolean list of the same
  length and order as the core's flags array, in which entry \<open>i\<close> is true exactly when the
  core's entry \<open>i\<close> equals 1, and \<^verbatim>\<open>getFlagsAsBitfield\<close> returns the core's packed flag
  number unaltered.
\<close>

theorem getFlags_marshalled:
  "length (getFlagsAsArray raw this) = length (wasm_get_flags_as_array raw (interpreter this))
   \<and> (\<forall>i < length (wasm_get_flags_as_array raw (interpreter this)).
         getFlagsAsArray raw this ! i = (wasm_get_flags_as_array raw (interpreter this) ! i = 1))
   \<and> getFlagsAsBitfield raw this = wasm_get_flags_as_number raw (interpreter this)"
  by (simp add: getFlagsAsArray_def getFlagsAsBitfield_def)

theorem getFlags_marshalled_witness:
  "length (getFlagsAsArray demo_flags (Interpreter [1, 0, 2, 1, 0])) = 5
   \<and> getFlagsAsArray demo_flags (Interpreter [1, 0, 2, 1, 0]) ! 3 = True
   \<and> getFlagsAsArray demo_flags (Interpreter [1, 0, 2, 1, 0]) ! 2 = False
   \<and> getFlagsAsBitfield demo_flags (Interpreter [1, 0, 2, 1, 0]) = 4"
proof -
  note flags = getFlags_marshalled [of demo_flags "Interpreter [1, 0, 2, 1, 0]"]
  have len: "length (wasm_get_flags_as_array demo_flags (interpreter (Interpreter [1, 0, 2, 1, 0]))) = 5"
    by (simp add: demo_flags_def)
  from flags have
    "3 < length (wasm_get_flags_as_array demo_flags (interpreter (Interpreter [1, 0, 2, 1, 0]))) \<longrightarrow>
     getFlagsAsArray demo_flags (Interpreter [1, 0, 2, 1, 0]) ! 3 =
       (wasm_get_flags_as_array demo_flags (interpreter (Interpreter [1, 0, 2, 1, 0])) ! 3 = 1)"
    by blast
  moreover from flags have
    "2 < length (wasm_get_flags_as_array demo_flags (interpreter (Interpreter [1, 0, 2, 1, 0]))) \<longrightarrow>
     getFlagsAsArray demo_flags (Interpreter [1, 0, 2, 1, 0]) ! 2 =
       (wasm_get_flags_as_array demo_flags (interpreter (Interpreter [1, 0, 2, 1, 0])) ! 2 = 1)"
    by blast
  ultimately show ?thesis
    using flags by (simp add: len) (simp add: demo_flags_def)
qed

subsection \<open>Stepping against running\<close>

lemma spec_step_halted: "status_of m st \<noteq> Running \<Longrightarrow> spec_next m st = st"
  by (cases "status_of m st") (simp_all add: spec_step_def spec_next_def)

lemma step_spec_returns:
  "status_of m st \<noteq> Interrupt \<Longrightarrow>
   \<exists>stp. step (spec_interpreter m) (Interpreter st) = (Returns stp, Interpreter (spec_next m st))"
  by (cases "status_of m st")
    (simp_all add: step_def spec_interpreter_def spec_step_def spec_next_def Let_def)

text \<open>The loop of \<open>run\<close> ends in the state that \<open>N\<close> steps reach, once that state is not running.\<close>

lemma spec_run_loop_funpow:
  "status_of m ((spec_next m ^^ N) st) \<noteq> Running \<Longrightarrow>
   spec_run_loop m st = Some ((spec_next m ^^ N) st)"
proof (induction N arbitrary: st)
  case 0
  then show ?case by (subst spec_run_loop.simps) simp
next
  case (Suc N)
  show ?case
  proof (cases "status_of m st = Running")
    case True
    have "spec_run_loop m st = spec_run_loop m (spec_next m st)"
      using True by (subst spec_run_loop.simps) (simp add: spec_next_def)
    also have "\<dots> = Some ((spec_next m ^^ N) (spec_next m st))"
      using Suc.prems by (intro Suc.IH) (simp add: funpow_swap1)
    finally show ?thesis by (simp add: funpow_swap1)
  next
    case False
    then have same: "spec_next m st = st" by (rule spec_step_halted)
    then have fp: "(spec_next m ^^ Suc N) st = (spec_next m ^^ N) st"
      by (simp add: funpow_swap1)
    with Suc.prems Suc.IH [of st] show ?thesis by simp
  qed
qed

text \<open>\<open>N\<close> calls of \<^verbatim>\<open>step()\<close> all return, as long as no interrupt is pending before any of them.\<close>

lemma step_times_spec:
  "(\<forall>k<N. getStatus (spec_interpreter m) (snd (step_times (spec_interpreter m) k this)) \<noteq> Interrupt) \<Longrightarrow>
   step_times (spec_interpreter m) N this =
     (Returns (), Interpreter ((spec_next m ^^ N) (interpreter this)))"
proof (induction N arbitrary: this)
  case 0
  then show ?case by simp
next
  case (Suc N)
  obtain st where this_eq: "this = Interpreter st" by (cases this)
  from Suc.prems [rule_format, of 0] have ok: "status_of m st \<noteq> Interrupt"
    by (simp add: this_eq getStatus_def spec_interpreter_def)
  from step_spec_returns [OF ok] obtain stp where
    stp: "step (spec_interpreter m) (Interpreter st) = (Returns stp, Interpreter (spec_next m st))"
    by blast
  have "\<forall>k<N. getStatus (spec_interpreter m)
           (snd (step_times (spec_interpreter m) k (Interpreter (spec_next m st)))) \<noteq> Interrupt"
  proof (intro allI impI)
    fix k assume "k < N"
    then have "Suc k < Suc N" by simp
    from Suc.prems [rule_format, OF this] show "getStatus (spec_interpreter m)
           (snd (step_times (spec_interpreter m) k (Interpreter (spec_next m st)))) \<noteq> Interrupt"
      by (simp add: stp this_eq)
  qed
  from Suc.IH [OF this] show ?case
    by (simp add: stp this_eq funpow_swap1)
qed

lemma countdown_trap_free:
  "k \<le> 4 \<Longrightarrow>
   getStatus (spec_interpreter countdown)
     (snd (step_times (spec_interpreter countdown) k (Interpreter (3, 0)))) \<noteq> Interrupt"
proof -
  assume "k \<le> 4"
  then consider "k = 0" | "k = Suc 0" | "k = Suc (Suc 0)" | "k = Suc (Suc (Suc 0))"
    | "k = Suc (Suc (Suc (Suc 0)))" by linarith
  then show ?thesis
    by cases (simp_all add: getStatus_def spec_interpreter_def step_def spec_step_def countdown_def)
qed

text \<open>
  C8. For every trap-free compiled program and every \<open>N\<close> sufficient to reach a non-Running
  status, performing \<open>N\<close> sequential \<^verbatim>\<open>step()\<close> calls yields the same final interpreter state
  as a single \<^verbatim>\<open>run()\<close> call on an identically constructed interpreter. The core is the
  state machine of the specification, over any instruction set: trap-free means that no
  interrupt is pending at the start or after any of the \<open>N\<close> steps. All \<open>N\<close> calls return,
  \<^verbatim>\<open>run()\<close> returns the status of the state they reach, and leaves the interpreter in that
  state (registers, flags, memory, program counter and status are parts of the state).
\<close>

theorem step_times_equals_run:
  fixes m :: "('st, 'line, 'intr, 'res) spec_machine"
  assumes "raw = spec_interpreter m"
    and trap_free: "\<forall>k\<le>N. getStatus raw (snd (step_times raw k this)) \<noteq> Interrupt"
    and halted: "getStatus raw (snd (step_times raw N this)) \<noteq> Running"
  shows "step_times raw N this = (Returns (), snd (step_times raw N this))
    \<and> run raw this = (Returns (getStatus raw (snd (step_times raw N this))), snd (step_times raw N this))"
proof -
  let ?g = "spec_next m"
  have "\<forall>k<N. getStatus (spec_interpreter m) (snd (step_times (spec_interpreter m) k this)) \<noteq> Interrupt"
    using trap_free assms(1) by simp
  then have steps: "step_times raw N this = (Returns (), Interpreter ((?g ^^ N) (interpreter this)))"
    unfolding assms(1) by (rule step_times_spec)
  have "status_of m ((?g ^^ N) (interpreter this)) \<noteq> Running"
    using halted steps by (simp add: assms(1) getStatus_def spec_interpreter_def)
  then have loop: "spec_run_loop m (interpreter this) = Some ((?g ^^ N) (interpreter this))"
    by (rule spec_run_loop_funpow)
  have "status_of m (interpreter this) \<noteq> Interrupt"
    using trap_free [rule_format, of 0] by (simp add: assms(1) getStatus_def spec_interpreter_def)
  with loop have "run raw this =
      (Returns (status_of m ((?g ^^ N) (interpreter this))), Interpreter ((?g ^^ N) (interpreter this)))"
    by (simp add: run_def assms(1) spec_interpreter_def spec_run_def)
  with steps show ?thesis
    by (simp add: assms(1) getStatus_def spec_interpreter_def)
qed

theorem step_times_equals_run_witness:
  "step_times (spec_interpreter countdown) 4 (Interpreter (3, 0)) = (Returns (), Interpreter (0, 0))
   \<and> run (spec_interpreter countdown) (Interpreter (3, 0)) = (Returns Terminated, Interpreter (0, 0))"
proof -
  have tf: "\<forall>k\<le>4. getStatus (spec_interpreter countdown)
     (snd (step_times (spec_interpreter countdown) k (Interpreter (3, 0)))) \<noteq> Interrupt"
    using countdown_trap_free by blast
  have fin: "snd (step_times (spec_interpreter countdown) 4 (Interpreter (3, 0))) = Interpreter (0, 0)"
    by (simp add: eval_nat_numeral step_def spec_interpreter_def spec_step_def countdown_def)
  have halted: "getStatus (spec_interpreter countdown)
     (snd (step_times (spec_interpreter countdown) 4 (Interpreter (3, 0)))) \<noteq> Running"
    by (simp add: fin) (simp add: getStatus_def spec_interpreter_def countdown_def)
  from step_times_equals_run [OF refl tf halted] show ?thesis
    by (simp add: fin) (simp add: getStatus_def spec_interpreter_def countdown_def)
qed

subsection \<open>Register widths\<close>

lemma write_byte_high: "drop_bit 8 (spec_write_register Byte old v) = drop_bit 8 old"
  by (rule bit_word_eqI) (auto simp: spec_write_register_def bit_simps dest: bit_imp_le_length)

lemma write_byte_low: "take_bit 8 (spec_write_register Byte old v) = take_bit 8 (word_of_int v)"
  by (rule bit_word_eqI) (auto simp: spec_write_register_def bit_simps dest: bit_imp_le_length)

lemma read_byte: "spec_read_register Byte w = uint w mod 256"
  by (simp only: spec_read_register_def Size.case unsigned_take_bit_eq) (simp add: take_bit_eq_mod)

lemma read_word: "spec_read_register Word w = uint w mod 65536"
  by (simp only: spec_read_register_def Size.case unsigned_take_bit_eq) (simp add: take_bit_eq_mod)

text \<open>
  C9. For every register and every 32-bit value held in it, writing a byte-sized value with
  \<^verbatim>\<open>setRegisterValue\<close> changes only the low 8 bits (they become the low 8 bits of the value
  written) and leaves the upper 24 bits unchanged, writing a long-sized value (also the
  default size) overwrites all 32 bits, and reading a narrower width with
  \<^verbatim>\<open>getRegisterValue\<close> returns only the low bits of the register, unsigned. The register file
  is the one of the specification.
\<close>

theorem register_width_masking:
  fixes regs :: "'reg \<Rightarrow> 32 word"
  shows "drop_bit 8 (interpreter (setRegisterValue spec_registers (Interpreter regs) r v (Some Byte)) r)
           = drop_bit 8 (regs r)
    \<and> take_bit 8 (interpreter (setRegisterValue spec_registers (Interpreter regs) r v (Some Byte)) r)
           = take_bit 8 (word_of_int v)
    \<and> interpreter (setRegisterValue spec_registers (Interpreter regs) r v (Some Long)) r = word_of_int v
    \<and> interpreter (setRegisterValue spec_registers (Interpreter regs) r v None) r = word_of_int v
    \<and> getRegisterValue spec_registers (Interpreter regs) r (Some Byte) = uint (regs r) mod 2 ^ 8
    \<and> getRegisterValue spec_registers (Interpreter regs) r (Some Word) = uint (regs r) mod 2 ^ 16
    \<and> getRegisterValue spec_registers (Interpreter regs) r (Some Long) = uint (regs r)
    \<and> getRegisterValue spec_registers (Interpreter regs) r None = uint (regs r)"
  by (simp add: setRegisterValue_def getRegisterValue_def spec_registers_def
      write_byte_high write_byte_low read_byte read_word)
     (simp add: spec_write_register_def spec_read_register_def)

section \<open>The library's \<^verbatim>\<open>Cpu\<close> class\<close>

text \<open>
  C10. For every CPU snapshot, \<^verbatim>\<open>getRegistersValues\<close> returns the data register values first,
  followed by the address register values, each sequence unaltered and in index order (with
  8 registers of each kind: positions 0 to 7 and 8 to 15); and \<^verbatim>\<open>Cpu.getRegister\<close> treats
  every \<^verbatim>\<open>RegisterType\<close> other than \<^verbatim>\<open>Data\<close>, also a number outside the enum, as \<^verbatim>\<open>Address\<close>,
  returning an address register.
\<close>

theorem cpu_registers:
  fixes raw :: "('rcpu, 'rreg, 'v) RawCpu_methods"
  assumes "d = wasm_get_d_regs_value raw (cpu this)"
    and "a = wasm_get_a_regs_value raw (cpu this)"
  shows "getRegistersValues raw this = d @ a
    \<and> (length d = 8 \<and> length a = 8 \<longrightarrow>
          length (getRegistersValues raw this) = 16
          \<and> take 8 (getRegistersValues raw this) = d
          \<and> drop 8 (getRegistersValues raw this) = a
          \<and> (\<forall>i < 8. getRegistersValues raw this ! i = d ! i
                     \<and> getRegistersValues raw this ! (8 + i) = a ! i))
    \<and> getRegister raw this reg RegisterType_Data = Register (wasm_get_d_reg raw (cpu this) reg)
    \<and> getRegister raw this reg RegisterType_Address = Register (wasm_get_a_reg raw (cpu this) reg)
    \<and> (rtype \<noteq> RegisterType_Data \<longrightarrow>
          getRegister raw this reg rtype = Register (wasm_get_a_reg raw (cpu this) reg))"
  using assms
  by (auto simp: getRegistersValues_def getRegister_def Let_def nth_append
      RegisterType_Data_def RegisterType_Address_def)

theorem cpu_registers_witness:
  "getRegistersValues demo_cpu (Cpu ([0, 1, 2, 3, 4, 5, 6, 7], [10, 11, 12, 13, 14, 15, 16, 17])) =
     [0, 1, 2, 3, 4, 5, 6, 7, 10, 11, 12, 13, 14, 15, 16, 17]
   \<and> getRegistersValues demo_cpu (Cpu ([0, 1, 2, 3, 4, 5, 6, 7], [10, 11, 12, 13, 14, 15, 16, 17])) ! (8 + 2) = 12
   \<and> getRegister demo_cpu (Cpu ([0, 1, 2, 3, 4, 5, 6, 7], [10, 11, 12, 13, 14, 15, 16, 17])) 3 7 =
     Register (''a'', 3)"
proof -
  let ?c = "Cpu ([0, 1, 2, 3, 4, 5, 6, 7], [10, 11, 12, 13, 14, 15, 16, 17 :: nat])"
  have d: "[0, 1, 2, 3, 4, 5, 6, 7 :: nat] = wasm_get_d_regs_value demo_cpu (cpu ?c)"
    by (simp add: demo_cpu_def)
  have a: "[10, 11, 12, 13, 14, 15, 16, 17 :: nat] = wasm_get_a_regs_value demo_cpu (cpu ?c)"
    by (simp add: demo_cpu_def)
  note regs = cpu_registers [OF d a, where reg = 3 and rtype = 7]
  have outside: "(7 :: int) \<noteq> RegisterType_Data"
    by (simp add: RegisterType_Data_def)
  from regs have all: "getRegistersValues demo_cpu ?c =
      [0, 1, 2, 3, 4, 5, 6, 7] @ [10, 11, 12, 13, 14, 15, 16, 17]"
    by blast
  from regs have "getRegistersValues demo_cpu ?c ! (8 + 2) = [10, 11, 12, 13, 14, 15, 16, 17] ! 2"
    by simp
  moreover from regs outside have "getRegister demo_cpu ?c 3 7 = Register (wasm_get_a_reg demo_cpu (cpu ?c) 3)"
    by blast
  ultimately show ?thesis
    using all by (simp add: demo_cpu_def)
qed

end
